theory Spec2Isabelle
  imports Main "HOL-Library.Word"
begin

section \<open>Strings, numbers and errors of the JavaScript source\<close>

text \<open>
  A JavaScript string is modelled as a \<^typ>\<open>string\<close>. ASCII text is represented
  character by character; the few non-ASCII characters of the source's literals (the
  status emoji) are written as their UTF-8 bytes. JavaScript numbers that the code only
  uses as integers (tiers, indices, HTTP status codes, millisecond timestamps) are
  \<^typ>\<open>int\<close>. Console logging is not modelled.
\<close>

fun startsWith :: "string \<Rightarrow> string \<Rightarrow> bool" where
  "startsWith s [] = True"
| "startsWith [] (p # ps) = False"
| "startsWith (c # cs) (p # ps) = (c = p \<and> startsWith cs ps)"

text \<open>\<^verbatim>\<open>String.prototype.includes\<close>: the argument occurs as a contiguous substring.\<close>

fun includes_str :: "string \<Rightarrow> string \<Rightarrow> bool" where
  "includes_str [] sub = (sub = [])"
| "includes_str (c # cs) sub = (startsWith (c # cs) sub \<or> includes_str cs sub)"

definition digitChar :: "nat \<Rightarrow> char" where
  "digitChar d = ''0123456789'' ! d"

function showNat :: "nat \<Rightarrow> string" where
  "showNat n = (if n < 10 then [digitChar n] else showNat (n div 10) @ [digitChar (n mod 10)])"
  by pat_completeness auto
termination
  by (relation "measure id") auto

declare showNat.simps [simp del]

text \<open>The decimal rendering of an integer inside a template literal.\<close>

definition showInt :: "int \<Rightarrow> string" where
  "showInt i = (if i < 0 then CHR ''-'' # showNat (nat (- i)) else showNat (nat i))"

text \<open>
  A thrown value: an \<^verbatim>\<open>Error\<close> object with its \<^verbatim>\<open>name\<close>, its
  \<^verbatim>\<open>message\<close> and the \<^verbatim>\<open>statusCode\<close> property the code attaches to some
  errors (\<open>None\<close> is \<^verbatim>\<open>undefined\<close>).
\<close>

record js_error =
  name :: string
  message :: string
  statusCode :: "int option"

text \<open>\<^verbatim>\<open>new Error(msg)\<close>\<close>

definition newError :: "string \<Rightarrow> js_error" where
  "newError msg = \<lparr>name = ''Error'', message = msg, statusCode = None\<rparr>"

text \<open>\<^verbatim>\<open>xs[i]\<close> on an array: \<^verbatim>\<open>undefined\<close> out of range.\<close>

definition at_index :: "'a list \<Rightarrow> int \<Rightarrow> 'a option" where
  "at_index xs i = (if 0 \<le> i \<and> i < int (length xs) then Some (xs ! nat i) else None)"

section \<open>The failover service worker (src/unnamed/part\_000)\<close>

subsection \<open>Configuration\<close>

record failover_config =
  tier1Models :: "string list"
  tier2Models :: "string list"
  cooldownMs :: int
  triggerCodes :: "int list"
  timeoutMs :: int

definition FAILOVER_CONFIG :: failover_config where
  "FAILOVER_CONFIG = \<lparr>
     tier1Models = [''google/gemini-2.0-flash-exp:free'', ''google/gemini-2.0-pro-exp-02-05:free''],
     tier2Models = [''amazon/nova-lite-v1:1.0'', ''mistralai/mistral-small-24b-instruct-2501:free''],
     cooldownMs = 5 * 60 * 1000,
     triggerCodes = [429, 503, 404, 400, 500, 502],
     timeoutMs = 35000\<rparr>"

record nopecha_config =
  pollIntervalMs :: int
  maxPollAttempts :: int

definition NOPECHA_CONFIG :: nopecha_config where
  "NOPECHA_CONFIG = \<lparr>pollIntervalMs = 500, maxPollAttempts = 20\<rparr>"

subsection \<open>The failover state\<close>

record failover_state =
  currentTier :: int
  modelIndex :: int
  lastFailoverTime :: "int option"

definition failoverState0 :: failover_state where
  "failoverState0 = \<lparr>currentTier = 1, modelIndex = 0, lastFailoverTime = None\<rparr>"

text \<open>\<^verbatim>\<open>a || 'Unknown'\<close> where \<open>a\<close> is a string or \<^verbatim>\<open>undefined\<close>.\<close>

definition orUnknown :: "string option \<Rightarrow> string" where
  "orUnknown a = (case a of None \<Rightarrow> ''Unknown'' | Some m \<Rightarrow> if m = [] then ''Unknown'' else m)"

definition getCurrentModelName :: "failover_state \<Rightarrow> string" where
  "getCurrentModelName s =
     (if currentTier s = 1 then orUnknown (at_index (tier1Models FAILOVER_CONFIG) (modelIndex s))
      else if currentTier s = 2 then orUnknown (at_index (tier2Models FAILOVER_CONFIG) (modelIndex s))
      else ''NoPeCHA'')"

definition getStatusIndicator :: "failover_state \<Rightarrow> string" where
  "getStatusIndicator s =
     (if currentTier s = 1 then [CHR 0xF0, CHR 0x9F, CHR 0x9F, CHR 0xA2] @ '' Tier1-'' @ getCurrentModelName s
      else if currentTier s = 2 then [CHR 0xF0, CHR 0x9F, CHR 0x9F, CHR 0xA1] @ '' Tier2-'' @ getCurrentModelName s
      else if currentTier s = 3 then [CHR 0xF0, CHR 0x9F, CHR 0x9F, CHR 0xA0] @ '' Tier3-NoPeCHA''
      else [CHR 0xF0, CHR 0x9F, CHR 0x94, CHR 0xB4] @ '' All Down'')"

text \<open>
  \<^verbatim>\<open>checkCooldownRecovery\<close>; the first argument is the value of \<^verbatim>\<open>Date.now()\<close>.
  The guard \<^verbatim>\<open>failoverState.lastFailoverTime\<close> is a truthiness test: it fails for
  \<^verbatim>\<open>null\<close> and for the number 0.
\<close>

definition checkCooldownRecovery :: "int \<Rightarrow> failover_state \<Rightarrow> failover_state" where
  "checkCooldownRecovery now s =
     (case lastFailoverTime s of
        None \<Rightarrow> s
      | Some t \<Rightarrow>
          if currentTier s > 1 \<and> t \<noteq> 0 then
            (let elapsed = now - t in
             if elapsed \<ge> cooldownMs FAILOVER_CONFIG
             then s\<lparr>currentTier := 1, modelIndex := 0, lastFailoverTime := None\<rparr>
             else s)
          else s)"

text \<open>
  \<^verbatim>\<open>advanceFailover(reason)\<close>; \<open>reason\<close> only reaches the log, \<open>now\<close> is the value
  of \<^verbatim>\<open>Date.now()\<close>.
\<close>

definition advanceFailover :: "string \<Rightarrow> int \<Rightarrow> failover_state \<Rightarrow> failover_state" where
  "advanceFailover reason now s =
     (let nextTier = currentTier s;
          nextIndex = modelIndex s + 1;
          maxIndex = (if currentTier s = 1 then int (length (tier1Models FAILOVER_CONFIG)) - 1
                      else if currentTier s = 2 then int (length (tier2Models FAILOVER_CONFIG)) - 1
                      else 0);
          (nextTier, nextIndex) = (if nextIndex > maxIndex then (nextTier + 1, 0) else (nextTier, nextIndex));
          s1 = s\<lparr>currentTier := nextTier, modelIndex := nextIndex, lastFailoverTime := Some now\<rparr>
      in if currentTier s1 > 3 then s1\<lparr>currentTier := 4\<rparr> else s1)"

text \<open>
  \<^verbatim>\<open>shouldFailover(statusCode, error)\<close>. \<^verbatim>\<open>includes\<close> is case-sensitive.
\<close>

definition shouldFailover :: "int option \<Rightarrow> js_error \<Rightarrow> bool" where
  "shouldFailover code error =
     (if (case code of None \<Rightarrow> False | Some c \<Rightarrow> c \<in> set (triggerCodes FAILOVER_CONFIG)) then True
      else if name error = ''AbortError'' then True
      else if includes_str (message error) ''empty'' then True
      else if includes_str (message error) ''Failed to extract'' then True
      else False)"

subsection \<open>Text cleaning\<close>

text \<open>
  The white space removed by \<^verbatim>\<open>trim()\<close>, within ASCII: tab, line feed, vertical tab,
  form feed, carriage return and space.
\<close>

definition isWhiteSpace :: "char \<Rightarrow> bool" where
  "isWhiteSpace c = ((of_char c :: nat) \<in> {9, 10, 11, 12, 13, 32})"

definition trim :: "string \<Rightarrow> string" where
  "trim s = rev (dropWhile isWhiteSpace (rev (dropWhile isWhiteSpace s)))"

text \<open>The character class \<^verbatim>\<open>[A-Za-z0-9]\<close>.\<close>

definition isAlnum :: "char \<Rightarrow> bool" where
  "isAlnum c = (let k = (of_char c :: nat) in
     (65 \<le> k \<and> k \<le> 90) \<or> (97 \<le> k \<and> k \<le> 122) \<or> (48 \<le> k \<and> k \<le> 57))"

definition cleanCaptchaText :: "string \<Rightarrow> js_error + string" where
  "cleanCaptchaText rawText =
     (let text = trim rawText;
          cleaned = filter isAlnum text
      in if length cleaned \<ge> 3 \<and> length cleaned \<le> 8 then Inr cleaned
         else Inl (newError (''Failed to extract valid CAPTCHA from: '' @ [CHR 0x22] @ take 50 text
                              @ ''...'' @ [CHR 0x22])))"

subsection \<open>JSON values and HTTP replies\<close>

text \<open>
  A parsed JSON value. Numbers are restricted to integers. A value of type
  \<open>json option\<close> is a JavaScript value that may be \<^verbatim>\<open>undefined\<close> (\<open>None\<close>).
\<close>

datatype json = JNull | JBool bool | JNum int | JStr string | JArr "json list" | JObj "(string \<times> json) list"

text \<open>JavaScript truthiness.\<close>

fun truthy :: "json option \<Rightarrow> bool" where
  "truthy None = False"
| "truthy (Some JNull) = False"
| "truthy (Some (JBool b)) = b"
| "truthy (Some (JNum n)) = (n \<noteq> 0)"
| "truthy (Some (JStr s)) = (s \<noteq> [])"
| "truthy (Some (JArr xs)) = True"
| "truthy (Some (JObj kvs)) = True"

text \<open>A member of a parsed object; of two members with one key, the later one counts.\<close>

definition member :: "(string \<times> json) list \<Rightarrow> string \<Rightarrow> json option" where
  "member kvs k = map_of (rev kvs) k"

definition typeError :: "string \<Rightarrow> js_error" where
  "typeError msg = \<lparr>name = ''TypeError'', message = msg, statusCode = None\<rparr>"

text \<open>
  \<^verbatim>\<open>v.k\<close> for the keys the source reads (\<^verbatim>\<open>data\<close>, \<^verbatim>\<open>error\<close>, \<^verbatim>\<open>choices\<close>,
  \<^verbatim>\<open>message\<close>, \<^verbatim>\<open>content\<close>): a \<^verbatim>\<open>TypeError\<close> on \<^verbatim>\<open>undefined\<close> and on
  \<^verbatim>\<open>null\<close>, the member of an object, \<^verbatim>\<open>undefined\<close> on any other value.
\<close>

fun getProp :: "json option \<Rightarrow> string \<Rightarrow> js_error + json option" where
  "getProp None k =
     Inl (typeError (''Cannot read properties of undefined (reading '' @ [CHR 0x27] @ k @ [CHR 0x27] @ '')''))"
| "getProp (Some JNull) k =
     Inl (typeError (''Cannot read properties of null (reading '' @ [CHR 0x27] @ k @ [CHR 0x27] @ '')''))"
| "getProp (Some (JObj kvs)) k = Inr (member kvs k)"
| "getProp v k = Inr None"

text \<open>\<^verbatim>\<open>v?.k\<close>\<close>

fun optProp :: "json option \<Rightarrow> string \<Rightarrow> json option" where
  "optProp (Some (JObj kvs)) k = member kvs k"
| "optProp v k = None"

text \<open>\<^verbatim>\<open>v?.[0]\<close>: the first element of an array, the first character of a string.\<close>

fun optIndex0 :: "json option \<Rightarrow> json option" where
  "optIndex0 (Some (JArr xs)) = (case xs of [] \<Rightarrow> None | x # _ \<Rightarrow> Some x)"
| "optIndex0 (Some (JStr s)) = (case s of [] \<Rightarrow> None | c # _ \<Rightarrow> Some (JStr [c]))"
| "optIndex0 (Some (JObj kvs)) = member kvs ''0''"
| "optIndex0 v = None"

fun joinWith :: "string \<Rightarrow> string list \<Rightarrow> string" where
  "joinWith sep [] = []"
| "joinWith sep [x] = x"
| "joinWith sep (x # y # ys) = x @ sep @ joinWith sep (y # ys)"

text \<open>\<^verbatim>\<open>typeof v === 'string'\<close>, and the string that such a value is.\<close>

fun typeofString :: "json option \<Rightarrow> bool" where
  "typeofString (Some (JStr s)) = True"
| "typeofString v = False"

fun stringOf :: "json option \<Rightarrow> string" where
  "stringOf (Some (JStr s)) = s"
| "stringOf v = []"

text \<open>The string a value becomes inside a template literal.\<close>

fun toStr :: "json \<Rightarrow> string" where
  "toStr JNull = ''null''"
| "toStr (JBool b) = (if b then ''true'' else ''false'')"
| "toStr (JNum n) = showInt n"
| "toStr (JStr s) = s"
| "toStr (JArr xs) = joinWith '','' (map (\<lambda>x. if x = JNull then [] else toStr x) xs)"
| "toStr (JObj kvs) = ''[object Object]''"

text \<open>
  An HTTP response as the code reads it: the status, the body as text and the body as
  parsed by \<^verbatim>\<open>response.json()\<close>, which rejects with an error (\<open>Inl\<close>) when the body
  is not JSON.
\<close>

record http_response =
  status :: int
  bodyText :: string
  bodyJson :: "js_error + json"

text \<open>\<^verbatim>\<open>response.ok\<close>: the status is in the range 200 to 299.\<close>

definition ok :: "http_response \<Rightarrow> bool" where
  "ok r = (200 \<le> status r \<and> status r \<le> 299)"

text \<open>
  A \<^verbatim>\<open>fetch\<close> either rejects (a network failure, or an \<^verbatim>\<open>AbortError\<close> when its abort
  signal fires) or resolves with a response.
\<close>

datatype fetch_result = Rejected js_error | Resolved http_response

subsection \<open>The environment\<close>

text \<open>
  What a request observes from outside: the clock at the successive points where the
  code consults it, the outcome of the successive \<^verbatim>\<open>fetch\<close> calls, the synchronised
  extension storage, \<^verbatim>\<open>chrome.runtime.lastError\<close> of the read in
  \<^verbatim>\<open>getApiKey\<close>, and the data URL that a screen capture delivers.
\<close>

record world =
  dateNow :: "nat \<Rightarrow> int"
  fetch :: "nat \<Rightarrow> fetch_result"
  syncStorage :: "string \<Rightarrow> string option"
  lastError :: "js_error option"
  captureVisibleTab :: string

text \<open>
  What a request has done so far: clock readings and fetches consumed, the delays
  passed to \<^verbatim>\<open>sleep\<close>, and the providers tried, as (tier, index) pairs (the
  \<^verbatim>\<open>Trying Tier ...\<close> lines of the log).
\<close>

record io =
  nowCalls :: nat
  fetchCalls :: nat
  slept :: "int list"
  tried :: "(int \<times> int) list"

definition io0 :: io where
  "io0 = \<lparr>nowCalls = 0, fetchCalls = 0, slept = [], tried = []\<rparr>"

definition readNow :: "world \<Rightarrow> io \<Rightarrow> int \<times> io" where
  "readNow w i = (dateNow w (nowCalls i), i\<lparr>nowCalls := Suc (nowCalls i)\<rparr>)"

definition doFetch :: "world \<Rightarrow> io \<Rightarrow> fetch_result \<times> io" where
  "doFetch w i = (fetch w (fetchCalls i), i\<lparr>fetchCalls := Suc (fetchCalls i)\<rparr>)"

text \<open>
  \<^verbatim>\<open>sleep(ms)\<close> is called by the service worker and defined in src/content.js as a
  promise resolved by \<^verbatim>\<open>setTimeout(resolve, ms)\<close>; the delay is recorded.
\<close>

definition sleep :: "int \<Rightarrow> io \<Rightarrow> io" where
  "sleep ms i = i\<lparr>slept := slept i @ [ms]\<rparr>"

definition withStatus :: "js_error \<Rightarrow> int \<Rightarrow> js_error" where
  "withStatus err c = err\<lparr>statusCode := Some c\<rparr>"

subsection \<open>Provider adapters\<close>

definition getApiKey :: "world \<Rightarrow> js_error + string" where
  "getApiKey w =
     (case lastError w of
        Some e \<Rightarrow> Inl e
      | None \<Rightarrow>
          (case syncStorage w ''openrouter_api_key'' of
             Some k \<Rightarrow> if k \<noteq> [] then Inr k
                       else Inl (newError ''API key not found. Please set it on the options page.'')
           | None \<Rightarrow> Inl (newError ''API key not found. Please set it on the options page.'')))"

text \<open>
  \<^verbatim>\<open>cleanCaptchaText(json.choices[0].message.content)\<close>: the content is a truthy JSON
  value; on anything but a string, \<^verbatim>\<open>rawText.trim\<close> is not a function.
\<close>

definition cleanContent :: "json option \<Rightarrow> js_error + string" where
  "cleanContent content =
     (case content of
        Some (JStr rawText) \<Rightarrow> cleanCaptchaText rawText
      | _ \<Rightarrow> Inl (typeError ''rawText.trim is not a function''))"

definition executeOpenRouterRequest ::
  "world \<Rightarrow> string \<Rightarrow> string option \<Rightarrow> string \<Rightarrow> io \<Rightarrow> (js_error + string) \<times> io" where
  "executeOpenRouterRequest w base64Image model apiKey i =
     (if apiKey = [] then (Inl (withStatus (newError ''API key is missing.'') 401), i)
      else
        (let (r, i1) = doFetch w i in
         case r of
           Rejected fetchError \<Rightarrow>
             if name fetchError = ''AbortError''
             then (Inl (withStatus (newError (''Timeout after '' @ showInt (timeoutMs FAILOVER_CONFIG) @ ''ms'')) 408), i1)
             else (Inl fetchError, i1)
         | Resolved response \<Rightarrow>
             if \<not> ok response
             then (Inl (withStatus (newError (''API error '' @ showInt (status response) @ '': '' @ bodyText response))
                          (status response)), i1)
             else
               (case bodyJson response of
                  Inl e \<Rightarrow> (Inl e, i1)
                | Inr json \<Rightarrow>
                    (case getProp (Some json) ''choices'' of
                       Inl e \<Rightarrow> (Inl e, i1)
                     | Inr choices \<Rightarrow>
                         (let content = optProp (optProp (optIndex0 choices) ''message'') ''content'' in
                          if \<not> truthy content
                          then (Inl (withStatus (newError ''Empty response from API'') 0), i1)
                          else (cleanContent content, i1))))))"

text \<open>How one iteration of a loop ends: \<^verbatim>\<open>continue\<close> (or the end of the body),
  \<^verbatim>\<open>return\<close> or \<^verbatim>\<open>throw\<close>.\<close>

datatype 'a iteration = Continue | Return 'a | Throw js_error

text \<open>The body of the polling loop of \<^verbatim>\<open>solveCaptchaWithNoPeCHA\<close>.\<close>

definition pollBody :: "world \<Rightarrow> io \<Rightarrow> string iteration \<times> io" where
  "pollBody w i =
     (let i1 = sleep (pollIntervalMs NOPECHA_CONFIG) i;
          (r, i2) = doFetch w i1 in
      case r of
        Rejected e \<Rightarrow> (Throw e, i2)
      | Resolved retrieveResponse \<Rightarrow>
          if \<not> ok retrieveResponse then
            (if status retrieveResponse = 202 then (Continue, i2)
             else (Throw (withStatus (newError (''NoPeCHA retrieve error '' @ showInt (status retrieveResponse)
                                                 @ '': '' @ bodyText retrieveResponse))
                            (status retrieveResponse)), i2))
          else
            (case bodyJson retrieveResponse of
               Inl e \<Rightarrow> (Throw e, i2)
             | Inr result \<Rightarrow>
                 (case getProp (Some result) ''data'' of
                    Inl e \<Rightarrow> (Throw e, i2)
                  | Inr data \<Rightarrow>
                      (let d0 = optIndex0 data in
                       if truthy d0 \<and> typeofString d0 \<and> length (stringOf d0) > 0
                       then (Return (stringOf d0), i2)
                       else
                         (case getProp (Some result) ''error'' of
                            Inl e \<Rightarrow> (Throw e, i2)
                          | Inr err \<Rightarrow>
                              if truthy err
                              then (Throw (withStatus (newError (''NoPeCHA: '' @ toStr (the err))) 0), i2)
                              else (Continue, i2))))))"

text \<open>
  The polling loop from the iteration numbered \<open>attempt\<close> on, up to the final
  \<^verbatim>\<open>throw\<close> after the loop.
\<close>

function pollLoop :: "world \<Rightarrow> int \<Rightarrow> io \<Rightarrow> (js_error + string) \<times> io" where
  "pollLoop w attempt i =
     (if attempt \<le> maxPollAttempts NOPECHA_CONFIG then
        (case pollBody w i of
           (Continue, i2) \<Rightarrow> pollLoop w (attempt + 1) i2
         | (Return t, i2) \<Rightarrow> (Inr t, i2)
         | (Throw e, i2) \<Rightarrow> (Inl e, i2))
      else (Inl (withStatus (newError ''NoPeCHA: Timeout waiting for result'') 408), i))"
  by pat_completeness auto
termination
  by (relation "measure (\<lambda>(w, attempt, i). nat (maxPollAttempts NOPECHA_CONFIG + 1 - attempt))") auto

declare pollLoop.simps [simp del]

definition solveCaptchaWithNoPeCHA :: "world \<Rightarrow> string \<Rightarrow> io \<Rightarrow> (js_error + string) \<times> io" where
  "solveCaptchaWithNoPeCHA w base64Image i =
     (if base64Image = [] then (Inl (newError ''Invalid image data''), i)
      else
        (let (r, i1) = doFetch w i in
         case r of
           Rejected e \<Rightarrow> (Inl e, i1)
         | Resolved submitResponse \<Rightarrow>
             if \<not> ok submitResponse
             then (Inl (withStatus (newError (''NoPeCHA submit error '' @ showInt (status submitResponse)
                                               @ '': '' @ bodyText submitResponse))
                          (status submitResponse)), i1)
             else
               (case bodyJson submitResponse of
                  Inl e \<Rightarrow> (Inl e, i1)
                | Inr submitResult \<Rightarrow>
                    (case getProp (Some submitResult) ''data'' of
                       Inl e \<Rightarrow> (Inl e, i1)
                     | Inr jobId \<Rightarrow>
                         if \<not> truthy jobId
                         then (Inl (withStatus (newError ''NoPeCHA: No job ID returned'') 0), i1)
                         else pollLoop w 1 i1))))"

subsection \<open>The solve handler\<close>

text \<open>
  The body of the \<^verbatim>\<open>try\<close> block of \<^verbatim>\<open>solveWithFailover\<close>: the provider at the
  current position is called. In a tier other than 1, 2 and 3 no branch is taken and
  \<open>result\<close> stays \<^verbatim>\<open>undefined\<close> (\<open>None\<close>).
\<close>

definition tryCurrent ::
  "world \<Rightarrow> string \<Rightarrow> string \<Rightarrow> failover_state \<Rightarrow> io \<Rightarrow> (js_error + string option) \<times> io" where
  "tryCurrent w base64Image apiKey s i =
     (let currentIndex = modelIndex s in
      if currentTier s = 1 then
        (let model = at_index (tier1Models FAILOVER_CONFIG) currentIndex;
             (result, i1) = executeOpenRouterRequest w base64Image model apiKey
                              (i\<lparr>tried := tried i @ [(1, currentIndex)]\<rparr>)
         in (map_sum id Some result, i1))
      else if currentTier s = 2 then
        (let model = at_index (tier2Models FAILOVER_CONFIG) currentIndex;
             (result, i1) = executeOpenRouterRequest w base64Image model apiKey
                              (i\<lparr>tried := tried i @ [(2, currentIndex)]\<rparr>)
         in (map_sum id Some result, i1))
      else if currentTier s = 3 then
        (let (result, i1) = solveCaptchaWithNoPeCHA w base64Image
                              (i\<lparr>tried := tried i @ [(3, currentIndex)]\<rparr>)
         in (map_sum id Some result, i1))
      else (Inr None, i))"

text \<open>
  \<^verbatim>\<open>solveWithFailover\<close>, from any iteration of its loop on; \<open>lastError\<close> is the
  local variable of that name (\<open>None\<close> is \<^verbatim>\<open>null\<close>).
\<close>

function solveWithFailover ::
  "world \<Rightarrow> string \<Rightarrow> string \<Rightarrow> js_error option \<Rightarrow> failover_state \<Rightarrow> io
     \<Rightarrow> (js_error + string option) \<times> failover_state \<times> io" where
  "solveWithFailover w base64Image apiKey lastErr s i =
     (if currentTier s \<le> 3 then
        (case tryCurrent w base64Image apiKey s i of
           (Inr result, i1) \<Rightarrow> (Inr result, s, i1)
         | (Inl error, i1) \<Rightarrow>
             if shouldFailover (statusCode error) error then
               solveWithFailover w base64Image apiKey (Some error)
                 (advanceFailover (getCurrentModelName s @ '': '' @ message error) (fst (readNow w i1)) s)
                 (snd (readNow w i1))
             else (Inl error, s, i1))
      else (Inl (case lastErr of Some e \<Rightarrow> e | None \<Rightarrow> newError ''All tiers exhausted''), s, i))"
  by pat_completeness auto
termination
proof (relation "measure (\<lambda>(w, b, k, le, s, i). nat (4 - currentTier s) * 3 + nat (2 - modelIndex s))", goal_cases)
  case 1
  show ?case by simp
next
  case (2 w base64Image apiKey lastErr s i x1 i1 error)
  from \<open>currentTier s \<le> 3\<close> show ?case
    by (auto simp: advanceFailover_def FAILOVER_CONFIG_def Let_def)
qed

declare solveWithFailover.simps [simp del]

text \<open>The object passed to \<^verbatim>\<open>sendResponse\<close>: a text or an error message, with the status.\<close>

datatype solve_response = TextResponse "string option" string | ErrorResponse string string

text \<open>
  \<^verbatim>\<open>handleCaptchaSolve\<close>: the response, the failover state and the record of what was
  done. The recovery check at its start is one of the points where the clock is consulted.
\<close>

definition handleCaptchaSolve ::
  "world \<Rightarrow> string \<Rightarrow> failover_state \<Rightarrow> io \<Rightarrow> solve_response \<times> failover_state \<times> io" where
  "handleCaptchaSolve w base64Image s i =
     (let (now, i1) = readNow w i;
          s1 = checkCooldownRecovery now s in
      case getApiKey w of
        Inl error \<Rightarrow> (ErrorResponse (message error) (getStatusIndicator s1), s1, i1)
      | Inr apiKey \<Rightarrow>
          (case solveWithFailover w base64Image apiKey None s1 i1 of
             (Inr text, s2, i2) \<Rightarrow> (TextResponse text (getStatusIndicator s2), s2, i2)
           | (Inl error, s2, i2) \<Rightarrow> (ErrorResponse (message error) (getStatusIndicator s2), s2, i2)))"

section \<open>The caching service worker (src/background.js)\<close>

text \<open>
  \<^verbatim>\<open>CONFIG\<close>, as far as the solvers read it. The NoPeCHA key is a placeholder of the
  source (\<^verbatim>\<open>''\<close>, to be entered by the user), so the solvers take the configuration
  as a parameter.
\<close>

record config =
  NOPECHA_key :: string
  OPENROUTER_models :: "string list"

definition CONFIG :: config where
  "CONFIG = \<lparr>NOPECHA_key = [],
              OPENROUTER_models = [''google/gemini-2.0-flash-exp:free'', ''qwen/qwen-2.5-vl-7b-instruct:free'']\<rparr>"

text \<open>
  \<^verbatim>\<open>state\<close>: the tier, the single slot \<^verbatim>\<open>lastSolved\<close> (\<open>None\<close> is \<^verbatim>\<open>null\<close>)
  holding a hash and a text, and the cache object. \<open>captchaCache\<close> is the copy that
  \<^verbatim>\<open>chrome.storage.local.set\<close> writes.
\<close>

record state =
  currentTier_bg :: int
  lastSolved :: "(string \<times> json) option"
  cache :: "string \<Rightarrow> json option"
  captchaCache :: "string \<Rightarrow> json option"

definition solveNoPeCHA :: "config \<Rightarrow> world \<Rightarrow> string \<Rightarrow> io \<Rightarrow> (js_error + json) \<times> io" where
  "solveNoPeCHA cfg w base64Image i =
     (if NOPECHA_key cfg = [] then (Inl (newError ''NOPECHA_KEY_MISSING''), i)
      else
        (let (r, i1) = doFetch w i in
         case r of
           Rejected e \<Rightarrow> (Inl e, i1)
         | Resolved response \<Rightarrow>
             if \<not> ok response then (Inl (newError (''NOPECHA_'' @ showInt (status response))), i1)
             else
               (case bodyJson response of
                  Inl e \<Rightarrow> (Inl e, i1)
                | Inr data \<Rightarrow>
                    (case getProp (Some data) ''data'' of
                       Inl e \<Rightarrow> (Inl e, i1)
                     | Inr d \<Rightarrow>
                         if truthy d \<and> truthy (optIndex0 d) then (Inr (the (optIndex0 d)), i1)
                         else (Inl (newError ''NOPECHA_EMPTY''), i1)))))"

text \<open>
  \<^verbatim>\<open>cleanText\<close>: quotes and spaces are removed, then the leftmost match of
  \<^verbatim>\<open>[A-Za-z0-9]{3,8}\<close> is taken; the quantifier is greedy.
\<close>

fun matchToken :: "string \<Rightarrow> string option" where
  "matchToken [] = None"
| "matchToken (c # cs) =
     (let run = takeWhile isAlnum (c # cs) in
      if length run \<ge> 3 then Some (take 8 run) else matchToken cs)"

definition cleanText :: "string \<Rightarrow> js_error + string" where
  "cleanText raw =
     (case matchToken (filter (\<lambda>c. c \<noteq> CHR 0x22 \<and> c \<noteq> CHR 0x27 \<and> c \<noteq> CHR '' '') raw) of
        None \<Rightarrow> Inl (newError ''UNPARSEABLE'')
      | Some m \<Rightarrow> Inr m)"

text \<open>\<^verbatim>\<open>cleanText\<close> applied to a value of the response that need not be a string.\<close>

definition cleanTextOf :: "json option \<Rightarrow> js_error + json" where
  "cleanTextOf content =
     (case content of
        Some (JStr raw) \<Rightarrow> map_sum id JStr (cleanText raw)
      | Some JNull \<Rightarrow>
          Inl (typeError (''Cannot read properties of null (reading '' @ [CHR 0x27] @ ''replace'' @ [CHR 0x27] @ '')''))
      | None \<Rightarrow>
          Inl (typeError (''Cannot read properties of undefined (reading '' @ [CHR 0x27] @ ''replace'' @ [CHR 0x27] @ '')''))
      | _ \<Rightarrow> Inl (typeError ''raw.replace is not a function''))"

definition solveOpenRouter :: "config \<Rightarrow> world \<Rightarrow> string \<Rightarrow> int \<Rightarrow> io \<Rightarrow> (js_error + json) \<times> io" where
  "solveOpenRouter cfg w base64Image modelIdx i =
     (let model = at_index (OPENROUTER_models cfg) modelIdx;
          (r, i1) = doFetch w i in
      case r of
        Rejected e \<Rightarrow> (Inl e, i1)
      | Resolved response \<Rightarrow>
          if status response = 429 then (Inl (newError ''RATE_LIMIT''), i1)
          else if \<not> ok response then (Inl (newError (''OPENROUTER_'' @ showInt (status response))), i1)
          else
            (case bodyJson response of
               Inl e \<Rightarrow> (Inl e, i1)
             | Inr json \<Rightarrow>
                 (case getProp (Some json) ''choices'' of
                    Inl e \<Rightarrow> (Inl e, i1)
                  | Inr choices \<Rightarrow>
                      (let content = optProp (optProp (optIndex0 choices) ''message'') ''content'' in
                       if \<not> truthy content then (Inl (newError ''EMPTY_OR''), i1)
                       else (cleanTextOf content, i1)))))"

text \<open>\<^verbatim>\<open>v[0]\<close> without optional chaining: a \<^verbatim>\<open>TypeError\<close> on \<^verbatim>\<open>undefined\<close> and \<^verbatim>\<open>null\<close>.\<close>

definition getIndex0 :: "json option \<Rightarrow> js_error + json option" where
  "getIndex0 v = (case getProp v ''0'' of Inl e \<Rightarrow> Inl e | Inr _ \<Rightarrow> Inr (optIndex0 v))"

definition solveMistral :: "world \<Rightarrow> string \<Rightarrow> io \<Rightarrow> (js_error + json) \<times> io" where
  "solveMistral w base64Image i =
     (let (r, i1) = doFetch w i in
      case r of
        Rejected e \<Rightarrow> (Inl e, i1)
      | Resolved response \<Rightarrow>
          if \<not> ok response then (Inl (newError (''MISTRAL_'' @ showInt (status response))), i1)
          else
            (case bodyJson response of
               Inl e \<Rightarrow> (Inl e, i1)
             | Inr json \<Rightarrow>
                 (case getProp (Some json) ''choices'' of
                    Inl e \<Rightarrow> (Inl e, i1)
                  | Inr choices \<Rightarrow>
                      (case getIndex0 choices of
                         Inl e \<Rightarrow> (Inl e, i1)
                       | Inr choice \<Rightarrow>
                           (case getProp choice ''message'' of
                              Inl e \<Rightarrow> (Inl e, i1)
                            | Inr msg \<Rightarrow>
                                (case getProp msg ''content'' of
                                   Inl e \<Rightarrow> (Inl e, i1)
                                 | Inr content \<Rightarrow> (cleanTextOf content, i1)))))))"

text \<open>
  \<^verbatim>\<open>hash\<close>: \<^verbatim>\<open>(Math.imul(31, h) + s.charCodeAt(i)) | 0\<close> is arithmetic modulo
  \<open>2^32\<close>, and \<^verbatim>\<open>toString\<close> prints the signed value. The image is a data URL, hence
  ASCII, so a character's code is its byte.
\<close>

definition hash :: "string \<Rightarrow> string" where
  "hash s = showInt (sint (foldl (\<lambda>h c. 31 * h + of_nat (of_char c)) (0 :: 32 word) s))"

text \<open>The remainder operator \<^verbatim>\<open>%\<close> on integers: the sign follows the dividend.\<close>

definition jsRem :: "int \<Rightarrow> int \<Rightarrow> int" where
  "jsRem a b = sgn a * (\<bar>a\<bar> mod \<bar>b\<bar>)"

text \<open>What the message listener passes to \<^verbatim>\<open>sendResponse\<close>.\<close>

datatype response =
    DataUrlResponse string
  | SolvedResponse json string
  | FailedResponse string

text \<open>
  The end of \<^verbatim>\<open>runSolve\<close> once the tier's solver has returned or thrown: the last two
  statements of the \<^verbatim>\<open>try\<close> block, or the \<^verbatim>\<open>catch\<close> block.
\<close>

definition settle :: "string \<Rightarrow> state \<Rightarrow> (js_error + json) \<times> io \<Rightarrow> response \<times> state \<times> io" where
  "settle imgHash st outcome =
     (case outcome of
        (Inr result, i1) \<Rightarrow>
          (SolvedResponse result (''T'' @ showInt (currentTier_bg st)),
           st\<lparr>lastSolved := Some (imgHash, result)\<rparr>, i1)
      | (Inl err, i1) \<Rightarrow>
          (FailedResponse (message err),
           st\<lparr>currentTier_bg := jsRem (currentTier_bg st) 3 + 1\<rparr>, i1))"

function runSolve :: "config \<Rightarrow> world \<Rightarrow> string \<Rightarrow> string \<Rightarrow> state \<Rightarrow> io \<Rightarrow> response \<times> state \<times> io" where
  "runSolve cfg w base64Image imgHash st i =
     (if currentTier_bg st = 1 then
        (if NOPECHA_key cfg = [] then runSolve cfg w base64Image imgHash (st\<lparr>currentTier_bg := 2\<rparr>) i
         else settle imgHash st (solveNoPeCHA cfg w base64Image i))
      else if currentTier_bg st = 2 then
        (case solveOpenRouter cfg w base64Image 0 i of
           (Inr result, i1) \<Rightarrow> settle imgHash st (Inr result, i1)
         | (Inl e, i1) \<Rightarrow> settle imgHash st (solveOpenRouter cfg w base64Image 1 i1))
      else settle imgHash st (solveMistral w base64Image i))"
  by pat_completeness auto
termination
  by (relation "measure (\<lambda>(cfg, w, b, h, st, i). if currentTier_bg st = 1 then 1 else 0)") auto

declare runSolve.simps [simp del]

datatype request = capture_screen | solve_captcha string | report_login_success | other_action

text \<open>
  The message listener: the response sent, if any, and the state afterwards. The status
  of a cache hit is the high-voltage sign followed by \<^verbatim>\<open> Cached\<close>.
\<close>

definition onMessage :: "config \<Rightarrow> world \<Rightarrow> request \<Rightarrow> state \<Rightarrow> io \<Rightarrow> response option \<times> state \<times> io" where
  "onMessage cfg w req st i =
     (case req of
        capture_screen \<Rightarrow> (Some (DataUrlResponse (captureVisibleTab w)), st, i)
      | solve_captcha base64Image \<Rightarrow>
          (let imgHash = hash base64Image in
           if truthy (cache st imgHash)
           then (Some (SolvedResponse (the (cache st imgHash)) ([CHR 0xE2, CHR 0x9A, CHR 0xA1] @ '' Cached'')), st, i)
           else (case runSolve cfg w base64Image imgHash st i of
                   (resp, st1, i1) \<Rightarrow> (Some resp, st1, i1)))
      | report_login_success \<Rightarrow>
          (case lastSolved st of
             Some solved \<Rightarrow>
               (let cache1 = (cache st)(fst solved \<mapsto> snd solved) in
                (None, st\<lparr>cache := cache1, captchaCache := cache1, lastSolved := None\<rparr>, i))
           | None \<Rightarrow> (None, st, i))
      | other_action \<Rightarrow> (None, st, i))"

section \<open>Notions used in the statements\<close>

subsection \<open>Tiers and the order of providers\<close>

text \<open>
  The loop of \<^verbatim>\<open>solveWithFailover\<close> runs while the tier is at most 3; the providers
  of a tier are the two model lists and, for tier 3, the single NoPeCHA service.
\<close>

definition maxTier :: int where
  "maxTier = 3"

definition tierProviders :: "int \<Rightarrow> string list" where
  "tierProviders n =
     (if n = 1 then tier1Models FAILOVER_CONFIG
      else if n = 2 then tier2Models FAILOVER_CONFIG
      else if n = 3 then [''NoPeCHA'']
      else [])"

definition lastIndex :: "int \<Rightarrow> int" where
  "lastIndex n = int (length (tierProviders n)) - 1"

definition position :: "failover_state \<Rightarrow> int \<times> int" where
  "position s = (currentTier s, modelIndex s)"

text \<open>All providers, tier by tier and index by index.\<close>

definition providerOrder :: "(int \<times> int) list" where
  "providerOrder = concat (map (\<lambda>n. map (\<lambda>k. (n, int k)) [0..<length (tierProviders n)]) [1, 2, 3])"

text \<open>The providers from the current position on, in that order.\<close>

definition providersFrom :: "failover_state \<Rightarrow> (int \<times> int) list" where
  "providersFrom s = dropWhile (\<lambda>p. p \<noteq> position s) providerOrder"


subsection \<open>Example inputs\<close>

definition exampleWorld :: "(nat \<Rightarrow> fetch_result) \<Rightarrow> world" where
  "exampleWorld f = \<lparr>dateNow = (\<lambda>n. 1700000000000 + int n), fetch = f,
     syncStorage = (\<lambda>k. if k = ''openrouter_api_key'' then Some ''sk-or-test'' else None),
     lastError = None, captureVisibleTab = ''data:image/png;base64,iVBORw0KGgo=''\<rparr>"

definition exampleImage :: string where
  "exampleImage = ''data:image/jpeg;base64,/9j/4AAQSkZJRg==''"

text \<open>The rejection of a \<^verbatim>\<open>fetch\<close> whose abort signal fired.\<close>

definition abortError :: js_error where
  "abortError = \<lparr>name = ''AbortError'', message = ''signal is aborted without reason'', statusCode = None\<rparr>"

text \<open>A chat completion whose first choice carries the given text.\<close>

definition chatCompletion :: "string \<Rightarrow> json" where
  "chatCompletion raw = JObj [(''choices'', JArr [JObj [(''message'', JObj [(''content'', JStr raw)])]])]"

definition okResponse :: "json \<Rightarrow> http_response" where
  "okResponse j = \<lparr>status = 200, bodyText = [], bodyJson = Inr j\<rparr>"



text \<open>A job handle as the submission returns it.\<close>

definition submitted :: http_response where
  "submitted = okResponse (JObj [(''data'', JStr ''job-1'')])"

text \<open>
  A reply with status 202 whose body reports the job as unfinished in an
  \<^verbatim>\<open>error\<close> member, and one with status 202 and an empty body, on which
  \<^verbatim>\<open>response.json()\<close> rejects.
\<close>

definition processing202 :: http_response where
  "processing202 = \<lparr>status = 202,
     bodyText = ''{'' @ [CHR 0x22] @ ''error'' @ [CHR 0x22] @ '':'' @ [CHR 0x22] @ ''Incomplete job'' @ [CHR 0x22] @ ''}'',
     bodyJson = Inr (JObj [(''error'', JStr ''Incomplete job'')])\<rparr>"

definition unexpectedEnd :: js_error where
  "unexpectedEnd = \<lparr>name = ''SyntaxError'', message = ''Unexpected end of JSON input'', statusCode = None\<rparr>"

definition empty202 :: http_response where
  "empty202 = \<lparr>status = 202, bodyText = [], bodyJson = Inl unexpectedEnd\<rparr>"

text \<open>A reply that carries neither a result nor an error, and one that carries a result.\<close>

definition pending200 :: http_response where
  "pending200 = okResponse (JObj [])"


text \<open>The state of the caching service worker when it starts with nothing stored.\<close>

definition state0 :: state where
  "state0 = \<lparr>currentTier_bg = 1, lastSolved = None, cache = Map.empty, captchaCache = Map.empty\<rparr>"

text \<open>The status of a cache hit.\<close>

definition cachedStatus :: string where
  "cachedStatus = [CHR 0xE2, CHR 0x9A, CHR 0xA1] @ '' Cached''"

text \<open>A world in which every provider call is answered with the text \<^verbatim>\<open>AB12\<close>.\<close>

definition steadyWorld :: world where
  "steadyWorld = exampleWorld (\<lambda>n. Resolved (okResponse (chatCompletion ''AB12'')))"

text \<open>
  The states the service worker can be in: a position of the provider order or the
  exhausted state, with a time stamp other than 0 whenever the tier is above 1.
\<close>

definition wellFormed :: "failover_state \<Rightarrow> bool" where
  "wellFormed s =
     ((position s \<in> set providerOrder \<or> position s = (maxTier + 1, 0))
      \<and> (currentTier s > 1 \<longrightarrow> (case lastFailoverTime s of None \<Rightarrow> False | Some t \<Rightarrow> t \<noteq> 0)))"







section \<open>Verification of the failover service worker\<close>

subsection \<open>The transitions of the failover state\<close>

text \<open>
  C1. On a non-terminal state, \<^verbatim>\<open>advanceFailover\<close> moves to the next index of the tier
  if there is one and otherwise to index 0 of the next tier; it records the time; the
  tier never exceeds \<open>maxTier + 1\<close>, the exhausted state.
\<close>

theorem advanceFailover_transition:
  assumes "1 \<le> currentTier s" and "currentTier s \<le> maxTier"
  shows "advanceFailover reason now s =
           (if modelIndex s + 1 \<le> lastIndex (currentTier s)
            then s\<lparr>modelIndex := modelIndex s + 1, lastFailoverTime := Some now\<rparr>
            else s\<lparr>currentTier := currentTier s + 1, modelIndex := 0, lastFailoverTime := Some now\<rparr>)
         \<and> currentTier (advanceFailover reason now s) \<le> maxTier + 1
         \<and> (currentTier (advanceFailover reason now s) > maxTier
              \<longrightarrow> currentTier (advanceFailover reason now s) = maxTier + 1)"
proof -
  from assms have "currentTier s = 1 \<or> currentTier s = 2 \<or> currentTier s = 3"
    unfolding maxTier_def by arith
  then show ?thesis
    by (auto simp: advanceFailover_def lastIndex_def tierProviders_def FAILOVER_CONFIG_def
        maxTier_def Let_def)
qed

theorem advanceFailover_transition_witness:
  "1 \<le> currentTier \<lparr>currentTier = 3, modelIndex = 0, lastFailoverTime = None\<rparr>
   \<and> currentTier \<lparr>currentTier = 3, modelIndex = 0, lastFailoverTime = None\<rparr> \<le> maxTier
   \<and> advanceFailover ''timeout'' 1700000000000 \<lparr>currentTier = 3, modelIndex = 0, lastFailoverTime = None\<rparr>
       = \<lparr>currentTier = 4, modelIndex = 0, lastFailoverTime = Some 1700000000000\<rparr>
   \<and> currentTier (advanceFailover ''timeout'' 1700000000000
                     \<lparr>currentTier = 3, modelIndex = 0, lastFailoverTime = None\<rparr>) > maxTier"
proof -
  let ?s = "\<lparr>currentTier = 3, modelIndex = 0, lastFailoverTime = None\<rparr>"
  have h1: "1 \<le> currentTier ?s" by simp
  have h2: "currentTier ?s \<le> maxTier" by (simp add: maxTier_def)
  from advanceFailover_transition [OF h1 h2, of "''timeout''" 1700000000000, THEN conjunct1]
  have "advanceFailover ''timeout'' 1700000000000 ?s
          = \<lparr>currentTier = 4, modelIndex = 0, lastFailoverTime = Some 1700000000000\<rparr>"
    by (simp add: lastIndex_def tierProviders_def)
  with h1 h2 show ?thesis by (simp add: maxTier_def)
qed

lemma advanceFailover_never_beyond: "currentTier (advanceFailover reason now s) \<le> maxTier + 1"
  by (simp add: advanceFailover_def maxTier_def Let_def split: if_splits prod.splits)

lemma checkCooldownRecovery_idem:
  "checkCooldownRecovery now (checkCooldownRecovery now s) = checkCooldownRecovery now s"
  by (simp add: checkCooldownRecovery_def Let_def split: option.splits)

lemma handleCaptchaSolve_recovers_first:
  "handleCaptchaSolve w b s i = handleCaptchaSolve w b (checkCooldownRecovery (dateNow w (nowCalls i)) s) i"
  by (simp add: handleCaptchaSolve_def readNow_def checkCooldownRecovery_idem)

text \<open>
  C2. Let the state carry, whenever its tier is above 1, the time stamp \<open>t\<close> of its last
  failover (a clock reading, not 0). \<^verbatim>\<open>checkCooldownRecovery\<close> resets it to tier 1,
  index 0 and clears the time stamp exactly when the tier is above 1 and at least
  \<open>cooldownMs\<close> have elapsed since \<open>t\<close>: not one millisecond earlier, and also from the
  exhausted tier 4. The solve handler applies it before anything else.
\<close>

theorem checkCooldownRecovery_exact:
  assumes "currentTier s > 1 \<Longrightarrow> lastFailoverTime s = Some t \<and> t \<noteq> 0"
  shows "checkCooldownRecovery now s =
           (if currentTier s > 1 \<and> now - t \<ge> cooldownMs FAILOVER_CONFIG
            then s\<lparr>currentTier := 1, modelIndex := 0, lastFailoverTime := None\<rparr>
            else s)
         \<and> checkCooldownRecovery (t + cooldownMs FAILOVER_CONFIG - 1) s = s
         \<and> (currentTier s > 1 \<longrightarrow>
              checkCooldownRecovery (t + cooldownMs FAILOVER_CONFIG) s
                = s\<lparr>currentTier := 1, modelIndex := 0, lastFailoverTime := None\<rparr>)
         \<and> (currentTier s = maxTier + 1 \<and> now - t \<ge> cooldownMs FAILOVER_CONFIG \<longrightarrow>
              checkCooldownRecovery now s
                = s\<lparr>currentTier := 1, modelIndex := 0, lastFailoverTime := None\<rparr>)
         \<and> handleCaptchaSolve w base64Image s i
             = handleCaptchaSolve w base64Image (checkCooldownRecovery (dateNow w (nowCalls i)) s) i"
proof -
  have "checkCooldownRecovery now' s =
           (if currentTier s > 1 \<and> now' - t \<ge> cooldownMs FAILOVER_CONFIG
            then s\<lparr>currentTier := 1, modelIndex := 0, lastFailoverTime := None\<rparr>
            else s)" for now'
  proof (cases "currentTier s > 1")
    case True
    with assms show ?thesis by (simp add: checkCooldownRecovery_def Let_def)
  next
    case False
    then show ?thesis by (simp add: checkCooldownRecovery_def Let_def split: option.splits)
  qed
  then have "checkCooldownRecovery now s =
           (if currentTier s > 1 \<and> now - t \<ge> cooldownMs FAILOVER_CONFIG
            then s\<lparr>currentTier := 1, modelIndex := 0, lastFailoverTime := None\<rparr>
            else s)
         \<and> checkCooldownRecovery (t + cooldownMs FAILOVER_CONFIG - 1) s = s
         \<and> (currentTier s > 1 \<longrightarrow>
              checkCooldownRecovery (t + cooldownMs FAILOVER_CONFIG) s
                = s\<lparr>currentTier := 1, modelIndex := 0, lastFailoverTime := None\<rparr>)
         \<and> (currentTier s = maxTier + 1 \<and> now - t \<ge> cooldownMs FAILOVER_CONFIG \<longrightarrow>
              checkCooldownRecovery now s
                = s\<lparr>currentTier := 1, modelIndex := 0, lastFailoverTime := None\<rparr>)"
    by (simp add: maxTier_def)
  moreover note handleCaptchaSolve_recovers_first [of w base64Image s i]
  ultimately show ?thesis
    by (elim conjE) (intro conjI; assumption)
qed

theorem checkCooldownRecovery_exact_witness:
  "lastFailoverTime \<lparr>currentTier = 4, modelIndex = 0, lastFailoverTime = Some 1700000000000\<rparr>
     = Some 1700000000000
   \<and> (1700000000000 :: int) \<noteq> 0
   \<and> currentTier \<lparr>currentTier = 4, modelIndex = 0, lastFailoverTime = Some 1700000000000\<rparr> = maxTier + 1
   \<and> (1700000000000 + 300000) - 1700000000000 \<ge> cooldownMs FAILOVER_CONFIG
   \<and> checkCooldownRecovery (1700000000000 + 299999)
        \<lparr>currentTier = 4, modelIndex = 0, lastFailoverTime = Some 1700000000000\<rparr>
       = \<lparr>currentTier = 4, modelIndex = 0, lastFailoverTime = Some 1700000000000\<rparr>
   \<and> checkCooldownRecovery (1700000000000 + 300000)
        \<lparr>currentTier = 4, modelIndex = 0, lastFailoverTime = Some 1700000000000\<rparr>
       = \<lparr>currentTier = 1, modelIndex = 0, lastFailoverTime = None\<rparr>"
proof -
  let ?s = "\<lparr>currentTier = 4, modelIndex = 0, lastFailoverTime = Some 1700000000000\<rparr>"
  have h: "lastFailoverTime ?s = Some 1700000000000 \<and> (1700000000000 :: int) \<noteq> 0" by simp
  note T = checkCooldownRecovery_exact [OF h]
  from T [of "1700000000000 + 299999", THEN conjunct1] T [of "1700000000000 + 300000", THEN conjunct1]
  show ?thesis by (simp add: FAILOVER_CONFIG_def maxTier_def)
qed

subsection \<open>What the adapters leave untouched\<close>

lemma doFetch_frame [simp]:
  "tried (snd (doFetch w i)) = tried i" "nowCalls (snd (doFetch w i)) = nowCalls i"
  "slept (snd (doFetch w i)) = slept i" "fetchCalls (snd (doFetch w i)) = Suc (fetchCalls i)"
  "fst (doFetch w i) = fetch w (fetchCalls i)"
  by (simp_all add: doFetch_def)

lemma sleep_frame [simp]:
  "tried (sleep ms i) = tried i" "nowCalls (sleep ms i) = nowCalls i"
  "fetchCalls (sleep ms i) = fetchCalls i" "slept (sleep ms i) = slept i @ [ms]"
  by (simp_all add: sleep_def)

lemma readNow_frame [simp]:
  "tried (snd (readNow w i)) = tried i" "nowCalls (snd (readNow w i)) = Suc (nowCalls i)"
  "fetchCalls (snd (readNow w i)) = fetchCalls i" "slept (snd (readNow w i)) = slept i"
  "fst (readNow w i) = dateNow w (nowCalls i)"
  by (simp_all add: readNow_def)

lemma executeOpenRouterRequest_frame:
  "tried (snd (executeOpenRouterRequest w b m k i)) = tried i \<and>
   nowCalls (snd (executeOpenRouterRequest w b m k i)) = nowCalls i"
  by (simp add: executeOpenRouterRequest_def Let_def split_beta
      split: fetch_result.splits sum.splits)

lemma pollBody_frame:
  "tried (snd (pollBody w i)) = tried i \<and> nowCalls (snd (pollBody w i)) = nowCalls i"
  by (simp add: pollBody_def Let_def split_beta split: fetch_result.splits sum.splits)

lemma pollLoop_frame:
  "tried (snd (pollLoop w a i)) = tried i \<and> nowCalls (snd (pollLoop w a i)) = nowCalls i"
proof (induction w a i rule: pollLoop.induct)
  case (1 w attempt i)
  show ?case
  proof (cases "attempt \<le> maxPollAttempts NOPECHA_CONFIG")
    case False
    then show ?thesis by (simp add: pollLoop.simps)
  next
    case True
    obtain st i2 where pb: "pollBody w i = (st, i2)" by (cases "pollBody w i")
    with pollBody_frame [of w i] have fr: "tried i2 = tried i" "nowCalls i2 = nowCalls i" by simp_all
    show ?thesis
    proof (cases st)
      case Continue
      with 1 [OF True pb [symmetric]] True pb fr show ?thesis
        by (simp add: pollLoop.simps [of w attempt i])
    next
      case (Return t)
      with True pb fr show ?thesis by (simp add: pollLoop.simps [of w attempt i])
    next
      case (Throw e)
      with True pb fr show ?thesis by (simp add: pollLoop.simps [of w attempt i])
    qed
  qed
qed

lemma solveCaptchaWithNoPeCHA_frame:
  "tried (snd (solveCaptchaWithNoPeCHA w b i)) = tried i \<and>
   nowCalls (snd (solveCaptchaWithNoPeCHA w b i)) = nowCalls i"
  by (simp add: solveCaptchaWithNoPeCHA_def Let_def split_beta pollLoop_frame
      split: fetch_result.splits sum.splits)

lemma tryCurrent_frame:
  "tried (snd (tryCurrent w b k s i)) =
     tried i @ (if currentTier s \<in> {1, 2, 3} then [position s] else []) \<and>
   nowCalls (snd (tryCurrent w b k s i)) = nowCalls i"
  by (simp add: tryCurrent_def Let_def split_beta position_def
      executeOpenRouterRequest_frame solveCaptchaWithNoPeCHA_frame)

subsection \<open>The order in which providers are tried\<close>

lemma providerOrder_eq: "providerOrder = [(1, 0), (1, 1), (2, 0), (2, 1), (3, 0)]"
  by (simp add: providerOrder_def tierProviders_def FAILOVER_CONFIG_def upt_rec)

lemma in_providerOrder:
  "position s \<in> set providerOrder \<longleftrightarrow>
     (currentTier s = 1 \<and> modelIndex s = 0) \<or> (currentTier s = 1 \<and> modelIndex s = 1) \<or>
     (currentTier s = 2 \<and> modelIndex s = 0) \<or> (currentTier s = 2 \<and> modelIndex s = 1) \<or>
     (currentTier s = 3 \<and> modelIndex s = 0)"
  by (auto simp: providerOrder_eq position_def)

lemma providersFrom_advance:
  assumes "position s \<in> set providerOrder"
  shows "providersFrom s = position s # providersFrom (advanceFailover reason now s)"
    and "position (advanceFailover reason now s) \<in> set providerOrder
         \<or> currentTier (advanceFailover reason now s) = 4"
  using assms unfolding in_providerOrder
  by (auto simp: providersFrom_def providerOrder_eq position_def advanceFailover_def
      FAILOVER_CONFIG_def Let_def)

lemma providersFrom_exhausted: "currentTier s = 4 \<Longrightarrow> providersFrom s = []"
  by (simp add: providersFrom_def providerOrder_eq position_def)



lemma solveWithFailover_trace:
  assumes "position s \<in> set providerOrder \<or> currentTier s = 4"
    and "solveWithFailover w b k le s i = (r, s', i')"
  shows "\<exists>N. nowCalls i' = nowCalls i + N
           \<and> tried i' = tried i @ take (Suc N) (providersFrom s)
           \<and> N \<le> length (providersFrom s)
           \<and> (N < length (providersFrom s) \<longrightarrow> position s' = providersFrom s ! N)
           \<and> (N = length (providersFrom s) \<longrightarrow> currentTier s' = 4)"
  using assms
proof (induction w b k le s i arbitrary: r s' i' rule: solveWithFailover.induct)
  case (1 w b k le s i)
  show ?case
  proof (cases "currentTier s = 4")
    case True
    with "1.prems"(2) have "s' = s" "i' = i"
      by (simp_all add: solveWithFailover.simps [of w b k le s i])
    with True show ?thesis
      by (intro exI [of _ 0]) (simp add: providersFrom_exhausted)
  next
    case False
    with "1.prems"(1) have pos: "position s \<in> set providerOrder" by simp
    then have tier: "currentTier s \<le> 3" "currentTier s \<in> {1, 2, 3}"
      unfolding in_providerOrder by auto
    obtain res i1 where tc: "tryCurrent w b k s i = (res, i1)" by (cases "tryCurrent w b k s i")
    with tryCurrent_frame [of w b k s i] tier
    have fr: "tried i1 = tried i @ [position s]" "nowCalls i1 = nowCalls i" by simp_all
    have stay: ?thesis if "s' = s" "i' = i1"
      using that fr providersFrom_advance(1) [OF pos, of "[]" 0]
      by (intro exI [of _ 0]) simp
    show ?thesis
    proof (cases res)
      case (Inr result)
      with "1.prems"(2) tc tier have "s' = s" "i' = i1"
        by (simp_all add: solveWithFailover.simps [of w b k le s i])
      then show ?thesis by (rule stay)
    next
      case (Inl error)
      show ?thesis
      proof (cases "shouldFailover (statusCode error) error")
        case False
        with "1.prems"(2) tc tier Inl have "s' = s" "i' = i1"
          by (simp_all add: solveWithFailover.simps [of w b k le s i])
        then show ?thesis by (rule stay)
      next
        case True
        define reason where "reason = getCurrentModelName s @ '': '' @ message error"
        define s1 where "s1 = advanceFailover reason (fst (readNow w i1)) s"
        define i2 where "i2 = snd (readNow w i1)"
        from "1.prems"(2) tc tier Inl True
        have run: "solveWithFailover w b k (Some error) s1 i2 = (r, s', i')"
          by (simp add: solveWithFailover.simps [of w b k le s i] s1_def i2_def reason_def)
        have inv: "position s1 \<in> set providerOrder \<or> currentTier s1 = 4"
          unfolding s1_def by (rule providersFrom_advance(2) [OF pos])
        have pf: "providersFrom s = position s # providersFrom s1"
          unfolding s1_def by (rule providersFrom_advance(1) [OF pos])
        from tc Inl have tc': "(Inl error, i1) = tryCurrent w b k s i" by simp
        from "1.IH" [OF tier(1) tc' refl True inv [unfolded s1_def reason_def]
                        run [unfolded s1_def i2_def reason_def]]
        obtain N where N: "nowCalls i' = nowCalls i2 + N"
          "tried i' = tried i2 @ take (Suc N) (providersFrom s1)"
          "N \<le> length (providersFrom s1)"
          "N < length (providersFrom s1) \<longrightarrow> position s' = providersFrom s1 ! N"
          "N = length (providersFrom s1) \<longrightarrow> currentTier s' = 4"
          unfolding s1_def i2_def reason_def by blast
        show ?thesis
          using N fr pf by (intro exI [of _ "Suc N"]) (simp add: i2_def)
      qed
    qed
  qed
qed




subsection \<open>Errors that are not retried\<close>

lemma showInt_35000: "showInt 35000 = ''35000''"
  by (simp add: showInt_def showNat.simps digitChar_def)


lemma timeout_error:
  assumes "k \<noteq> []" and "fetch w (fetchCalls i) = Rejected e" and "name e = ''AbortError''"
  shows "executeOpenRouterRequest w b m k i =
           (Inl \<lparr>name = ''Error'', message = ''Timeout after 35000ms'', statusCode = Some 408\<rparr>,
            i\<lparr>fetchCalls := Suc (fetchCalls i)\<rparr>)"
  using assms
  by (simp add: executeOpenRouterRequest_def doFetch_def withStatus_def newError_def
      FAILOVER_CONFIG_def showInt_35000)

lemma timeout_not_retryable:
  "\<not> shouldFailover (Some 408) \<lparr>name = ''Error'', message = ''Timeout after 35000ms'', statusCode = Some 408\<rparr>"
  by (simp add: shouldFailover_def FAILOVER_CONFIG_def)

text \<open>
  C3. A tier-1 request whose \<^verbatim>\<open>fetch\<close> is aborted by the timeout: the adapter throws
  \<^verbatim>\<open>Timeout after 35000ms\<close> with status code 408, \<^verbatim>\<open>shouldFailover\<close> answers
  false for it, and \<^verbatim>\<open>solveWithFailover\<close> throws it on with the failover state
  unchanged and no other provider tried.
\<close>

theorem timeout_is_propagated:
  "solveWithFailover (exampleWorld (\<lambda>n. Rejected abortError)) exampleImage ''sk-or-test'' None failoverState0 io0
     = (Inl \<lparr>name = ''Error'', message = ''Timeout after 35000ms'', statusCode = Some 408\<rparr>,
        failoverState0, io0\<lparr>fetchCalls := 1, tried := [(1, 0)]\<rparr>)
   \<and> \<not> shouldFailover (Some 408)
         \<lparr>name = ''Error'', message = ''Timeout after 35000ms'', statusCode = Some 408\<rparr>"
proof -
  have "tryCurrent (exampleWorld (\<lambda>n. Rejected abortError)) exampleImage ''sk-or-test'' failoverState0 io0
     = (Inl \<lparr>name = ''Error'', message = ''Timeout after 35000ms'', statusCode = Some 408\<rparr>,
        io0\<lparr>fetchCalls := 1, tried := [(1, 0)]\<rparr>)"
    by (simp add: tryCurrent_def failoverState0_def Let_def timeout_error exampleWorld_def
        abortError_def io0_def)
  then show ?thesis
    using timeout_not_retryable
    by (subst solveWithFailover.simps) (simp add: failoverState0_def)
qed


section \<open>Verification of the submit/poll adapter\<close>

lemma pollBody_io:
  "fetchCalls (snd (pollBody w i)) = Suc (fetchCalls i) \<and>
   slept (snd (pollBody w i)) = slept i @ [pollIntervalMs NOPECHA_CONFIG]"
  by (simp add: pollBody_def Let_def split_beta split: fetch_result.splits sum.splits)

text \<open>The loop polls at most once per remaining attempt and sleeps the poll interval before each poll.\<close>

lemma pollLoop_bounded:
  "\<exists>n. n \<le> nat (maxPollAttempts NOPECHA_CONFIG + 1 - attempt)
       \<and> fetchCalls (snd (pollLoop w attempt i)) = fetchCalls i + n
       \<and> slept (snd (pollLoop w attempt i)) = slept i @ replicate n (pollIntervalMs NOPECHA_CONFIG)"
proof (induction w attempt i rule: pollLoop.induct)
  case (1 w attempt i)
  show ?case
  proof (cases "attempt \<le> maxPollAttempts NOPECHA_CONFIG")
    case False
    then show ?thesis by (intro exI [of _ 0]) (simp add: pollLoop.simps)
  next
    case True
    obtain st i2 where pb: "pollBody w i = (st, i2)" by (cases "pollBody w i")
    with pollBody_io [of w i]
    have io: "fetchCalls i2 = Suc (fetchCalls i)" "slept i2 = slept i @ [pollIntervalMs NOPECHA_CONFIG]"
      by simp_all
    have one: ?thesis if "snd (pollLoop w attempt i) = i2"
      using that io True by (intro exI [of _ 1]) simp
    show ?thesis
    proof (cases st)
      case Continue
      from 1 [OF True pb [symmetric] Continue]
      obtain n where n: "n \<le> nat (maxPollAttempts NOPECHA_CONFIG + 1 - (attempt + 1))"
        "fetchCalls (snd (pollLoop w (attempt + 1) i2)) = fetchCalls i2 + n"
        "slept (snd (pollLoop w (attempt + 1) i2)) = slept i2 @ replicate n (pollIntervalMs NOPECHA_CONFIG)"
        by blast
      have "pollLoop w attempt i = pollLoop w (attempt + 1) i2"
        using True pb Continue by (simp add: pollLoop.simps [of w attempt i])
      with n io True show ?thesis
        by (intro exI [of _ "Suc n"]) (simp add: replicate_append_same)
    next
      case (Return t)
      with True pb show ?thesis by (intro one) (simp add: pollLoop.simps [of w attempt i])
    next
      case (Throw e)
      with True pb show ?thesis by (intro one) (simp add: pollLoop.simps [of w attempt i])
    qed
  qed
qed

text \<open>
  When no poll delivers a result or an error, the loop ends after the last attempt with
  the time-out error of status code 408, having polled once per attempt.
\<close>

lemma pollLoop_times_out:
  assumes "\<forall>j. fst (pollBody w j) = Continue"
  shows "fst (pollLoop w attempt i) = Inl (withStatus (newError ''NoPeCHA: Timeout waiting for result'') 408)
         \<and> fetchCalls (snd (pollLoop w attempt i))
             = fetchCalls i + nat (maxPollAttempts NOPECHA_CONFIG + 1 - attempt)
         \<and> slept (snd (pollLoop w attempt i))
             = slept i @ replicate (nat (maxPollAttempts NOPECHA_CONFIG + 1 - attempt)) (pollIntervalMs NOPECHA_CONFIG)"
  using assms
proof (induction w attempt i rule: pollLoop.induct)
  case (1 w attempt i)
  show ?case
  proof (cases "attempt \<le> maxPollAttempts NOPECHA_CONFIG")
    case False
    then show ?thesis by (simp add: pollLoop.simps)
  next
    case True
    obtain st i2 where pb: "pollBody w i = (st, i2)" by (cases "pollBody w i")
    with "1.prems" [rule_format, of i] have st: "st = Continue" by simp
    from pb pollBody_io [of w i]
    have io: "fetchCalls i2 = Suc (fetchCalls i)" "slept i2 = slept i @ [pollIntervalMs NOPECHA_CONFIG]"
      by simp_all
    have step: "pollLoop w attempt i = pollLoop w (attempt + 1) i2"
      using True pb st by (simp add: pollLoop.simps [of w attempt i])
    from True have n: "nat (maxPollAttempts NOPECHA_CONFIG + 1 - attempt)
                        = Suc (nat (maxPollAttempts NOPECHA_CONFIG + 1 - (attempt + 1)))"
      by simp
    from "1.IH" [OF True pb [symmetric] st "1.prems"] show ?thesis
      unfolding step n using io by (simp add: replicate_append_same)
  qed
qed

lemma pending200_continues: "fetch w (fetchCalls j) = Resolved pending200 \<Longrightarrow> fst (pollBody w j) = Continue"
  by (simp add: pollBody_def Let_def split_beta pending200_def okResponse_def ok_def member_def)

text \<open>With the source's configuration: twenty polls, ten seconds of sleep.\<close>

lemma pollLoop_times_out_example:
  "pollLoop (exampleWorld (\<lambda>n. Resolved pending200)) 1 io0
     = (Inl \<lparr>name = ''Error'', message = ''NoPeCHA: Timeout waiting for result'', statusCode = Some 408\<rparr>,
        snd (pollLoop (exampleWorld (\<lambda>n. Resolved pending200)) 1 io0))
   \<and> fetchCalls (snd (pollLoop (exampleWorld (\<lambda>n. Resolved pending200)) 1 io0)) = 20
   \<and> sum_list (slept (snd (pollLoop (exampleWorld (\<lambda>n. Resolved pending200)) 1 io0))) = 10000"
proof -
  have "\<forall>j. fst (pollBody (exampleWorld (\<lambda>n. Resolved pending200)) j) = Continue"
    by (simp add: pending200_continues exampleWorld_def)
  from pollLoop_times_out [OF this, of 1 io0] show ?thesis
    by (simp add: NOPECHA_CONFIG_def io0_def withStatus_def newError_def prod_eq_iff sum_list_replicate)
qed

text \<open>
  C7. A run of \<^verbatim>\<open>solveCaptchaWithNoPeCHA\<close> whose job is submitted and whose first poll
  is answered with status 202: with an \<^verbatim>\<open>error\<close> member in the body the adapter throws
  at once, and with an empty body it throws the parse error, after a single poll in both
  cases. The branch \<^verbatim>\<open>status === 202\<close> is guarded by \<^verbatim>\<open>!retrieveResponse.ok\<close>, which
  is false for 202.
\<close>

theorem status_202_stops_polling:
  "solveCaptchaWithNoPeCHA
     (exampleWorld (\<lambda>n. if n = 0 then Resolved submitted else Resolved processing202)) exampleImage io0
     = (Inl \<lparr>name = ''Error'', message = ''NoPeCHA: Incomplete job'', statusCode = Some 0\<rparr>,
        io0\<lparr>fetchCalls := 2, slept := [500]\<rparr>)
   \<and> solveCaptchaWithNoPeCHA
     (exampleWorld (\<lambda>n. if n = 0 then Resolved submitted else Resolved empty202)) exampleImage io0
     = (Inl unexpectedEnd, io0\<lparr>fetchCalls := 2, slept := [500]\<rparr>)
   \<and> ok processing202 \<and> ok empty202"
proof -
  have p1: "pollBody (exampleWorld (\<lambda>n. if n = 0 then Resolved submitted else Resolved processing202))
              (io0\<lparr>fetchCalls := 1\<rparr>)
            = (Throw \<lparr>name = ''Error'', message = ''NoPeCHA: Incomplete job'', statusCode = Some 0\<rparr>,
               io0\<lparr>fetchCalls := 2, slept := [500]\<rparr>)"
    by (simp add: pollBody_def Let_def doFetch_def sleep_def exampleWorld_def processing202_def ok_def
        member_def withStatus_def newError_def NOPECHA_CONFIG_def io0_def)
  have p2: "pollBody (exampleWorld (\<lambda>n. if n = 0 then Resolved submitted else Resolved empty202))
              (io0\<lparr>fetchCalls := 1\<rparr>)
            = (Throw unexpectedEnd, io0\<lparr>fetchCalls := 2, slept := [500]\<rparr>)"
    by (simp add: pollBody_def Let_def doFetch_def sleep_def exampleWorld_def empty202_def ok_def
        NOPECHA_CONFIG_def io0_def)
  have s: "solveCaptchaWithNoPeCHA (exampleWorld (\<lambda>n. if n = 0 then Resolved submitted else Resolved r))
             exampleImage io0
           = pollLoop (exampleWorld (\<lambda>n. if n = 0 then Resolved submitted else Resolved r)) 1
               (io0\<lparr>fetchCalls := 1\<rparr>)" for r
    by (simp add: solveCaptchaWithNoPeCHA_def Let_def doFetch_def exampleWorld_def exampleImage_def
        submitted_def okResponse_def ok_def member_def io0_def)
  show ?thesis
    using p1 p2
    by (simp add: s pollLoop.simps [of _ 1] NOPECHA_CONFIG_def processing202_def empty202_def ok_def)
qed

section \<open>Verification of the text cleaning\<close>










lemma matchToken_Some:
  "matchToken xs = Some m \<Longrightarrow> 3 \<le> length m \<and> length m \<le> 8 \<and> (\<forall>c \<in> set m. isAlnum c)"
proof (induction xs)
  case Nil
  then show ?case by simp
next
  case (Cons c cs)
  show ?case
  proof (cases "3 \<le> length (takeWhile isAlnum (c # cs))")
    case True
    with Cons.prems have m: "m = take 8 (takeWhile isAlnum (c # cs))"
      by (simp add: Let_def del: takeWhile.simps)
    have "\<forall>x \<in> set (takeWhile isAlnum (c # cs)). isAlnum x"
      by (meson set_takeWhileD)
    with True m show ?thesis
      by (auto simp del: takeWhile.simps dest: in_set_takeD)
  next
    case False
    with Cons.prems have "matchToken cs = Some m" by (simp add: Let_def del: takeWhile.simps)
    with Cons.IH show ?thesis by simp
  qed
qed








section \<open>Verification of what the NoPeCHA adapters return\<close>



section \<open>Verification of the caching service worker\<close>

lemma map_sum_eq_Inr: "map_sum f g x = Inr v \<longleftrightarrow> (\<exists>m. x = Inr m \<and> v = g m)"
  by (cases x) auto

lemma map_sum_eq_Inl: "map_sum f g x = Inl e \<longleftrightarrow> (\<exists>a. x = Inl a \<and> e = f a)"
  by (cases x) auto

lemma cleanTextOf_truthy:
  assumes "cleanTextOf content = Inr v"
  shows "truthy (Some v)"
proof -
  from assms obtain raw m where m: "cleanText raw = Inr m" "v = JStr m"
    by (auto simp: cleanTextOf_def map_sum_eq_Inr split: option.splits json.splits)
  then have "matchToken (filter (\<lambda>c. c \<noteq> CHR 0x22 \<and> c \<noteq> CHR 0x27 \<and> c \<noteq> CHR '' '') raw) = Some m"
    by (simp add: cleanText_def split: option.splits)
  from matchToken_Some [OF this] have "m \<noteq> []" by auto
  with m show ?thesis by simp
qed

lemma truthy_the: "truthy x \<Longrightarrow> Some (the x) = x"
  by (cases x) auto

lemma solveNoPeCHA_truthy: "solveNoPeCHA cfg w b i = (Inr v, i1) \<Longrightarrow> truthy (Some v)"
  by (auto simp: solveNoPeCHA_def Let_def split_beta truthy_the
      split: if_splits fetch_result.splits sum.splits)

lemma solveOpenRouter_truthy: "solveOpenRouter cfg w b k i = (Inr v, i1) \<Longrightarrow> truthy (Some v)"
  by (auto simp: solveOpenRouter_def Let_def split_beta dest: cleanTextOf_truthy
      split: if_splits fetch_result.splits sum.splits)

lemma solveMistral_truthy: "solveMistral w b i = (Inr v, i1) \<Longrightarrow> truthy (Some v)"
  by (auto simp: solveMistral_def Let_def split_beta dest: cleanTextOf_truthy
      split: if_splits fetch_result.splits sum.splits)

lemma settle_Inr:
  "settle h st (Inr v, i1) = (SolvedResponse v (''T'' @ showInt (currentTier_bg st)), st\<lparr>lastSolved := Some (h, v)\<rparr>, i1)"
  by (simp add: settle_def)

lemma settle_Inl:
  "settle h st (Inl e, i1) = (FailedResponse (message e), st\<lparr>currentTier_bg := jsRem (currentTier_bg st) 3 + 1\<rparr>, i1)"
  by (simp add: settle_def)

text \<open>
  A run of \<^verbatim>\<open>runSolve\<close> never touches the cache; when it answers with a text, the text is
  truthy and \<^verbatim>\<open>lastSolved\<close> holds it with the hash; when it fails, \<^verbatim>\<open>lastSolved\<close> is
  as before.
\<close>

lemma runSolve_effect:
  assumes "runSolve cfg w b h st i = (resp, st1, i1)"
  shows "cache st1 = cache st \<and> captchaCache st1 = captchaCache st
         \<and> (\<forall>t tag. resp = SolvedResponse t tag \<longrightarrow> truthy (Some t) \<and> lastSolved st1 = Some (h, t))
         \<and> (\<forall>m. resp = FailedResponse m \<longrightarrow> lastSolved st1 = lastSolved st)
         \<and> (\<forall>u. resp \<noteq> DataUrlResponse u)"
  using assms
proof (induction cfg w b h st i arbitrary: resp st1 i1 rule: runSolve.induct)
  case (1 cfg w b h st i)
  consider (skip) "currentTier_bg st = 1" "NOPECHA_key cfg = []"
    | (t1) "currentTier_bg st = 1" "NOPECHA_key cfg \<noteq> []"
    | (t2) "currentTier_bg st = 2"
    | (t3) "currentTier_bg st \<noteq> 1" "currentTier_bg st \<noteq> 2"
    by blast
  then show ?case
  proof cases
    case skip
    with "1.prems" have "runSolve cfg w b h (st\<lparr>currentTier_bg := 2\<rparr>) i = (resp, st1, i1)"
      by (simp add: runSolve.simps [of cfg w b h st i])
    from "1.IH" [OF skip this] show ?thesis by simp
  next
    case t1
    obtain r i2 where s: "solveNoPeCHA cfg w b i = (r, i2)" by (cases "solveNoPeCHA cfg w b i")
    with "1.prems" t1 have "settle h st (r, i2) = (resp, st1, i1)"
      by (simp add: runSolve.simps [of cfg w b h st i])
    with s show ?thesis
      by (cases r) (auto simp: settle_Inr settle_Inl dest: solveNoPeCHA_truthy)
  next
    case t2
    obtain r i2 where s: "solveOpenRouter cfg w b 0 i = (r, i2)" by (cases "solveOpenRouter cfg w b 0 i")
    show ?thesis
    proof (cases r)
      case (Inr v)
      with "1.prems" t2 s have "settle h st (Inr v, i2) = (resp, st1, i1)"
        by (simp add: runSolve.simps [of cfg w b h st i])
      with s Inr show ?thesis
        by (auto simp: settle_Inr dest: solveOpenRouter_truthy)
    next
      case (Inl e)
      obtain r' i3 where s': "solveOpenRouter cfg w b 1 i2 = (r', i3)"
        by (cases "solveOpenRouter cfg w b 1 i2")
      with "1.prems" t2 s Inl have "settle h st (r', i3) = (resp, st1, i1)"
        by (simp add: runSolve.simps [of cfg w b h st i])
      with s' show ?thesis
        by (cases r') (auto simp: settle_Inr settle_Inl dest: solveOpenRouter_truthy)
    qed
  next
    case t3
    obtain r i2 where s: "solveMistral w b i = (r, i2)" by (cases "solveMistral w b i")
    with "1.prems" t3 have "settle h st (r, i2) = (resp, st1, i1)"
      by (simp add: runSolve.simps [of cfg w b h st i])
    with s show ?thesis
      by (cases r) (auto simp: settle_Inr settle_Inl dest: solveMistral_truthy)
  qed
qed

lemma cache_hit:
  assumes "truthy (cache st (hash img))"
  shows "onMessage cfg w (solve_captcha img) st i
           = (Some (SolvedResponse (the (cache st (hash img))) cachedStatus), st, i)"
  using assms by (simp add: onMessage_def cachedStatus_def Let_def)

lemma cache_miss:
  assumes "\<not> truthy (cache st (hash img))"
  shows "onMessage cfg w (solve_captcha img) st i
           = (case runSolve cfg w img (hash img) st i of (resp, st1, i1) \<Rightarrow> (Some resp, st1, i1))"
  using assms by (simp add: onMessage_def Let_def)

lemma confirm:
  "onMessage cfg w report_login_success st i =
     (case lastSolved st of
        Some (h, t) \<Rightarrow> (None, st\<lparr>cache := (cache st)(h \<mapsto> t), captchaCache := (cache st)(h \<mapsto> t),
                                   lastSolved := None\<rparr>, i)
      | None \<Rightarrow> (None, st, i))"
  by (simp add: onMessage_def Let_def split: option.splits prod.splits)

lemma steady_requests:
  "onMessage CONFIG steadyWorld (solve_captcha exampleImage) state0 io0
     = (Some (SolvedResponse (JStr ''AB12'') ''T2''),
        \<lparr>currentTier_bg = 2, lastSolved = Some (hash exampleImage, JStr ''AB12''),
           cache = Map.empty, captchaCache = Map.empty\<rparr>,
        io0\<lparr>fetchCalls := 1\<rparr>)"
  "onMessage CONFIG steadyWorld (solve_captcha exampleImage)
        \<lparr>currentTier_bg = 2, lastSolved = p, cache = Map.empty, captchaCache = Map.empty\<rparr>
        (io0\<lparr>fetchCalls := 1\<rparr>)
     = (Some (SolvedResponse (JStr ''AB12'') ''T2''),
        \<lparr>currentTier_bg = 2, lastSolved = Some (hash exampleImage, JStr ''AB12''),
           cache = Map.empty, captchaCache = Map.empty\<rparr>,
        io0\<lparr>fetchCalls := 2\<rparr>)"
proof -
  have sor: "solveOpenRouter CONFIG steadyWorld exampleImage 0 j
               = (Inr (JStr ''AB12''), j\<lparr>fetchCalls := Suc (fetchCalls j)\<rparr>)" for j
    by (simp add: solveOpenRouter_def Let_def doFetch_def steadyWorld_def exampleWorld_def okResponse_def
        chatCompletion_def ok_def member_def cleanTextOf_def cleanText_def isAlnum_def)
  have two: "showInt 2 = ''2''" by (simp add: showInt_def showNat.simps digitChar_def)
  have key: "NOPECHA_key CONFIG = []" by (simp add: CONFIG_def)
  have run2: "runSolve CONFIG steadyWorld exampleImage h (st\<lparr>currentTier_bg := 2\<rparr>) j
          = (SolvedResponse (JStr ''AB12'') ''T2'',
             st\<lparr>currentTier_bg := 2, lastSolved := Some (h, JStr ''AB12'')\<rparr>,
             j\<lparr>fetchCalls := Suc (fetchCalls j)\<rparr>)" for h st j
    by (subst runSolve.simps) (simp add: sor settle_def two)
  have run1: "runSolve CONFIG steadyWorld exampleImage h state0 j
          = (SolvedResponse (JStr ''AB12'') ''T2'',
             state0\<lparr>currentTier_bg := 2, lastSolved := Some (h, JStr ''AB12'')\<rparr>,
             j\<lparr>fetchCalls := Suc (fetchCalls j)\<rparr>)" for h j
    using run2 [of h state0 j] key
    by (subst runSolve.simps) (simp add: state0_def)
  show "onMessage CONFIG steadyWorld (solve_captcha exampleImage) state0 io0
     = (Some (SolvedResponse (JStr ''AB12'') ''T2''),
        \<lparr>currentTier_bg = 2, lastSolved = Some (hash exampleImage, JStr ''AB12''),
           cache = Map.empty, captchaCache = Map.empty\<rparr>,
        io0\<lparr>fetchCalls := 1\<rparr>)"
    using run1 [of "hash exampleImage" io0]
    by (simp add: onMessage_def Let_def state0_def io0_def)
  show "onMessage CONFIG steadyWorld (solve_captcha exampleImage)
        \<lparr>currentTier_bg = 2, lastSolved = p, cache = Map.empty, captchaCache = Map.empty\<rparr>
        (io0\<lparr>fetchCalls := 1\<rparr>)
     = (Some (SolvedResponse (JStr ''AB12'') ''T2''),
        \<lparr>currentTier_bg = 2, lastSolved = Some (hash exampleImage, JStr ''AB12''),
           cache = Map.empty, captchaCache = Map.empty\<rparr>,
        io0\<lparr>fetchCalls := 2\<rparr>)"
    using run2 [of "hash exampleImage" "\<lparr>currentTier_bg = 2, lastSolved = p,
           cache = Map.empty, captchaCache = Map.empty\<rparr>" "io0\<lparr>fetchCalls := 1\<rparr>"]
    by (simp add: onMessage_def Let_def io0_def)
qed

text \<open>
  C6 as stated fails: the same image is requested twice, no confirmation arrives in
  between, and the second request is answered by a provider again (status \<^verbatim>\<open>T2\<close>, a
  second fetch), not from the cache.
\<close>

theorem unconfirmed_repeat_calls_provider:
  "onMessage CONFIG steadyWorld (solve_captcha exampleImage) state0 io0
     = (Some (SolvedResponse (JStr ''AB12'') ''T2''),
        \<lparr>currentTier_bg = 2, lastSolved = Some (hash exampleImage, JStr ''AB12''),
           cache = Map.empty, captchaCache = Map.empty\<rparr>,
        io0\<lparr>fetchCalls := 1\<rparr>)
   \<and> onMessage CONFIG steadyWorld (solve_captcha exampleImage)
        \<lparr>currentTier_bg = 2, lastSolved = Some (hash exampleImage, JStr ''AB12''),
           cache = Map.empty, captchaCache = Map.empty\<rparr>
        (io0\<lparr>fetchCalls := 1\<rparr>)
     = (Some (SolvedResponse (JStr ''AB12'') ''T2''),
        \<lparr>currentTier_bg = 2, lastSolved = Some (hash exampleImage, JStr ''AB12''),
           cache = Map.empty, captchaCache = Map.empty\<rparr>,
        io0\<lparr>fetchCalls := 2\<rparr>)
   \<and> ''T2'' \<noteq> cachedStatus"
  using steady_requests(1) steady_requests(2) [of "Some (hash exampleImage, JStr ''AB12'')"]
  by (simp add: cachedStatus_def)

text \<open>
  C6, amended. A first request that the cache does not answer and a provider solves, then
  the confirmation, then a request whose image has the same hash: the second request is
  answered with the first one's text and the cached status, the state and the count of
  fetches stay as they are. More generally every request whose hash has a truthy cache
  entry is answered so.
\<close>

theorem confirmed_repeat_is_cached:
  assumes "\<not> truthy (cache st (hash img1))"
    and "onMessage cfg w (solve_captcha img1) st i = (Some (SolvedResponse t tag), st1, i1)"
    and "onMessage cfg w2 report_login_success st1 i2 = (resp, st2, i3)"
    and "hash img2 = hash img1"
  shows "onMessage cfg w3 (solve_captcha img2) st2 i4 = (Some (SolvedResponse t cachedStatus), st2, i4)
         \<and> (truthy (cache st' (hash img)) \<longrightarrow>
               onMessage cfg w3 (solve_captcha img) st' i4
                 = (Some (SolvedResponse (the (cache st' (hash img))) cachedStatus), st', i4))"
proof -
  from assms(1,2) have "runSolve cfg w img1 (hash img1) st i = (SolvedResponse t tag, st1, i1)"
    by (simp add: cache_miss split: prod.splits)
  from runSolve_effect [OF this] have t: "truthy (Some t)" and ls: "lastSolved st1 = Some (hash img1, t)"
    by simp_all
  from assms(3) ls have "cache st2 (hash img1) = Some t"
    by (auto simp: confirm)
  with t assms(4) have "truthy (cache st2 (hash img2))" "the (cache st2 (hash img2)) = t" by simp_all
  with cache_hit [of st2 img2 cfg w3 i4] cache_hit [of st' img cfg w3 i4] show ?thesis by simp
qed

theorem confirmed_repeat_is_cached_witness:
  "\<not> truthy (cache state0 (hash exampleImage))
   \<and> onMessage CONFIG steadyWorld (solve_captcha exampleImage)
       \<lparr>currentTier_bg = 2, lastSolved = None,
          cache = Map.empty(hash exampleImage \<mapsto> JStr ''AB12''),
          captchaCache = Map.empty(hash exampleImage \<mapsto> JStr ''AB12'')\<rparr> (io0\<lparr>fetchCalls := 1\<rparr>)
     = (Some (SolvedResponse (JStr ''AB12'') cachedStatus),
        \<lparr>currentTier_bg = 2, lastSolved = None,
          cache = Map.empty(hash exampleImage \<mapsto> JStr ''AB12''),
          captchaCache = Map.empty(hash exampleImage \<mapsto> JStr ''AB12'')\<rparr>, io0\<lparr>fetchCalls := 1\<rparr>)"
proof -
  let ?st1 = "\<lparr>currentTier_bg = 2, lastSolved = Some (hash exampleImage, JStr ''AB12''),
           cache = Map.empty, captchaCache = Map.empty\<rparr>"
  let ?st2 = "\<lparr>currentTier_bg = 2, lastSolved = None,
          cache = Map.empty(hash exampleImage \<mapsto> JStr ''AB12''),
          captchaCache = Map.empty(hash exampleImage \<mapsto> JStr ''AB12'')\<rparr>"
  have h1: "\<not> truthy (cache state0 (hash exampleImage))" by (simp add: state0_def)
  have h2: "onMessage CONFIG steadyWorld (solve_captcha exampleImage) state0 io0
              = (Some (SolvedResponse (JStr ''AB12'') ''T2''), ?st1, io0\<lparr>fetchCalls := 1\<rparr>)"
    by (rule steady_requests(1))
  have h3: "onMessage CONFIG steadyWorld report_login_success ?st1 (io0\<lparr>fetchCalls := 1\<rparr>)
              = (None, ?st2, io0\<lparr>fetchCalls := 1\<rparr>)"
    by (simp add: confirm)
  from confirmed_repeat_is_cached [OF h1 h2 h3 refl, THEN conjunct1, of steadyWorld "io0\<lparr>fetchCalls := 1\<rparr>"] h1
  show ?thesis by simp
qed

text \<open>
  C9. The pending candidate is the single slot \<^verbatim>\<open>lastSolved\<close>. A request other than
  the confirmation leaves the cache and its stored copy as they are. A request that a
  provider solves puts its hash and text into the slot, whatever the slot held; a request
  that fails leaves the slot as it is. The confirmation writes the slot's entry into the
  cache and into the stored copy and empties the slot; with an empty slot it changes
  nothing.
\<close>

theorem pending_candidate_single_slot:
  "(req \<noteq> report_login_success \<longrightarrow>
      cache (fst (snd (onMessage cfg w req st i))) = cache st
      \<and> captchaCache (fst (snd (onMessage cfg w req st i))) = captchaCache st)
   \<and> (\<not> truthy (cache st (hash img))
        \<and> onMessage cfg w (solve_captcha img) st i = (Some (SolvedResponse t tag), st1, i1)
       \<longrightarrow> lastSolved st1 = Some (hash img, t))
   \<and> (onMessage cfg w (solve_captcha img) st i = (Some (FailedResponse m), st1, i1)
       \<longrightarrow> lastSolved st1 = lastSolved st)
   \<and> (lastSolved st = Some (h, t) \<longrightarrow>
        onMessage cfg w report_login_success st i
          = (None, st\<lparr>cache := (cache st)(h \<mapsto> t), captchaCache := (cache st)(h \<mapsto> t),
                       lastSolved := None\<rparr>, i))
   \<and> (lastSolved st = None \<longrightarrow> onMessage cfg w report_login_success st i = (None, st, i))"
proof -
  have frame: "cache (fst (snd (onMessage cfg w req st i))) = cache st
      \<and> captchaCache (fst (snd (onMessage cfg w req st i))) = captchaCache st"
    if "req \<noteq> report_login_success"
  proof (cases req)
    case (solve_captcha b)
    obtain resp st1 i1 where r: "runSolve cfg w b (hash b) st i = (resp, st1, i1)"
      by (cases "runSolve cfg w b (hash b) st i")
    from runSolve_effect [OF r] r solve_captcha show ?thesis
      by (simp add: onMessage_def Let_def)
  qed (use that in \<open>simp_all add: onMessage_def\<close>)
  have put: "lastSolved st1 = Some (hash img, t)"
    if "\<not> truthy (cache st (hash img))
        \<and> onMessage cfg w (solve_captcha img) st i = (Some (SolvedResponse t tag), st1, i1)"
  proof -
    from that have miss: "\<not> truthy (cache st (hash img))"
      and "onMessage cfg w (solve_captcha img) st i = (Some (SolvedResponse t tag), st1, i1)"
      by simp_all
    then have "runSolve cfg w img (hash img) st i = (SolvedResponse t tag, st1, i1)"
      by (simp add: cache_miss [OF miss] split: prod.splits)
    from runSolve_effect [OF this] show ?thesis by simp
  qed
  have keep: "lastSolved st1 = lastSolved st"
    if "onMessage cfg w (solve_captcha img) st i = (Some (FailedResponse m), st1, i1)"
  proof (cases "truthy (cache st (hash img))")
    case True
    with that show ?thesis by (simp add: cache_hit)
  next
    case False
    with that have "runSolve cfg w img (hash img) st i = (FailedResponse m, st1, i1)"
      by (simp add: cache_miss split: prod.splits)
    from runSolve_effect [OF this] show ?thesis by simp
  qed
  show ?thesis
    using frame put keep by (auto simp: confirm)
qed

theorem pending_candidate_single_slot_witness:
  "solve_captcha exampleImage \<noteq> report_login_success
   \<and> \<not> truthy (cache \<lparr>currentTier_bg = 2, lastSolved = Some (''0'', JStr ''old''),
                        cache = Map.empty, captchaCache = Map.empty\<rparr> (hash exampleImage))
   \<and> lastSolved (fst (snd (onMessage CONFIG steadyWorld (solve_captcha exampleImage)
        \<lparr>currentTier_bg = 2, lastSolved = Some (''0'', JStr ''old''),
           cache = Map.empty, captchaCache = Map.empty\<rparr> (io0\<lparr>fetchCalls := 1\<rparr>))))
       = Some (hash exampleImage, JStr ''AB12'')
   \<and> cache (fst (snd (onMessage CONFIG steadyWorld (solve_captcha exampleImage)
        \<lparr>currentTier_bg = 2, lastSolved = Some (''0'', JStr ''old''),
           cache = Map.empty, captchaCache = Map.empty\<rparr> (io0\<lparr>fetchCalls := 1\<rparr>)))) = Map.empty
   \<and> onMessage CONFIG steadyWorld report_login_success
        \<lparr>currentTier_bg = 2, lastSolved = Some (hash exampleImage, JStr ''AB12''),
           cache = Map.empty, captchaCache = Map.empty\<rparr> io0
       = (None, \<lparr>currentTier_bg = 2, lastSolved = None,
                  cache = Map.empty(hash exampleImage \<mapsto> JStr ''AB12''),
                  captchaCache = Map.empty(hash exampleImage \<mapsto> JStr ''AB12'')\<rparr>, io0)"
proof -
  let ?st = "\<lparr>currentTier_bg = 2, lastSolved = Some (''0'', JStr ''old''),
             cache = Map.empty, captchaCache = Map.empty\<rparr>"
  let ?st1 = "\<lparr>currentTier_bg = 2, lastSolved = Some (hash exampleImage, JStr ''AB12''),
              cache = Map.empty, captchaCache = Map.empty\<rparr>"
  have h0: "solve_captcha exampleImage \<noteq> report_login_success" by simp
  have h1: "\<not> truthy (cache ?st (hash exampleImage))" by simp
  have h2: "onMessage CONFIG steadyWorld (solve_captcha exampleImage) ?st (io0\<lparr>fetchCalls := 1\<rparr>)
              = (Some (SolvedResponse (JStr ''AB12'') ''T2''), ?st1, io0\<lparr>fetchCalls := 2\<rparr>)"
    by (rule steady_requests(2))
  note T = pending_candidate_single_slot
             [of "solve_captcha exampleImage" CONFIG steadyWorld ?st "io0\<lparr>fetchCalls := 1\<rparr>" exampleImage
                 "JStr ''AB12''" "''T2''" ?st1 "io0\<lparr>fetchCalls := 2\<rparr>"]
  from T [THEN conjunct1] h0 have c: "cache (fst (snd (onMessage CONFIG steadyWorld
       (solve_captcha exampleImage) ?st (io0\<lparr>fetchCalls := 1\<rparr>)))) = Map.empty"
    by simp
  from T [THEN conjunct2, THEN conjunct1] h1 h2 have p: "lastSolved ?st1 = Some (hash exampleImage, JStr ''AB12'')"
    by blast
  have l: "lastSolved ?st1 = Some (hash exampleImage, JStr ''AB12'')" by simp
  from pending_candidate_single_slot
         [of _ CONFIG steadyWorld ?st1 io0 _ "JStr ''AB12''" _ _ _ _ "hash exampleImage",
          THEN conjunct2, THEN conjunct2, THEN conjunct2, THEN conjunct1] l
  have r: "onMessage CONFIG steadyWorld report_login_success ?st1 io0
       = (None, ?st1\<lparr>cache := (cache ?st1)(hash exampleImage \<mapsto> JStr ''AB12''),
                    captchaCache := (cache ?st1)(hash exampleImage \<mapsto> JStr ''AB12''),
                    lastSolved := None\<rparr>, io0)"
    by blast
  from h0 h1 h2 c r show ?thesis by simp
qed

section \<open>The failover states that are reached\<close>

lemma wellFormed_initial: "wellFormed failoverState0"
  by (simp add: wellFormed_def failoverState0_def position_def providerOrder_eq)

lemma wellFormed_advance:
  assumes "wellFormed s" and "currentTier s \<le> 3" and "now \<noteq> 0"
  shows "wellFormed (advanceFailover reason now s)"
proof -
  from assms(1,2) have "position s \<in> set providerOrder"
    by (auto simp: wellFormed_def position_def maxTier_def)
  then show ?thesis
    using assms(3) unfolding in_providerOrder
    by (auto simp: wellFormed_def position_def providerOrder_eq advanceFailover_def
        FAILOVER_CONFIG_def maxTier_def Let_def)
qed

lemma wellFormed_recovery: "wellFormed s \<Longrightarrow> wellFormed (checkCooldownRecovery now s)"
  by (auto simp: wellFormed_def checkCooldownRecovery_def position_def providerOrder_eq Let_def
      split: option.splits)

lemma wellFormed_tiers: "wellFormed s \<Longrightarrow> 1 \<le> currentTier s \<and> currentTier s \<le> maxTier + 1"
  by (auto simp: wellFormed_def position_def providerOrder_eq maxTier_def)

lemma solveWithFailover_wellFormed:
  assumes "wellFormed s" and "\<forall>n. dateNow w n \<noteq> 0"
  shows "wellFormed (fst (snd (solveWithFailover w b k le s i)))"
  using assms
proof (induction w b k le s i rule: solveWithFailover.induct)
  case (1 w b k le s i)
  show ?case
  proof (cases "currentTier s \<le> 3")
    case False
    with "1.prems"(1) show ?thesis by (simp add: solveWithFailover.simps [of w b k le s i])
  next
    case True
    obtain res i1 where tc: "tryCurrent w b k s i = (res, i1)" by (cases "tryCurrent w b k s i")
    show ?thesis
    proof (cases res)
      case (Inr result)
      with True tc "1.prems"(1) show ?thesis by (simp add: solveWithFailover.simps [of w b k le s i])
    next
      case (Inl error)
      show ?thesis
      proof (cases "shouldFailover (statusCode error) error")
        case False
        with True tc Inl "1.prems"(1) show ?thesis
          by (simp add: solveWithFailover.simps [of w b k le s i])
      next
        case sf: True
        from tc Inl have tc': "(Inl error, i1) = tryCurrent w b k s i" by simp
        have "wellFormed (advanceFailover (getCurrentModelName s @ '': '' @ message error)
                            (fst (readNow w i1)) s)"
          using "1.prems" True by (intro wellFormed_advance) (simp_all add: readNow_def)
        from "1.IH" [OF True tc' refl sf this "1.prems"(2)] True tc Inl sf show ?thesis
          by (simp add: solveWithFailover.simps [of w b k le s i])
      qed
    qed
  qed
qed

text \<open>
  Every request leaves the failover state well formed, as long as the clock never reads 0:
  the tier stays between 1 and \<open>maxTier + 1\<close>, and a tier above 1 carries the time stamp
  that the recovery check needs.
\<close>

lemma handleCaptchaSolve_wellFormed:
  assumes "wellFormed s" and "\<forall>n. dateNow w n \<noteq> 0"
  shows "wellFormed (fst (snd (handleCaptchaSolve w b s i)))"
proof -
  have r: "wellFormed (checkCooldownRecovery (dateNow w (nowCalls i)) s)"
    using assms(1) by (rule wellFormed_recovery)
  show ?thesis
  proof (cases "getApiKey w")
    case (Inl e)
    with r show ?thesis by (simp add: handleCaptchaSolve_def readNow_def Let_def)
  next
    case (Inr k)
    from solveWithFailover_wellFormed [OF r assms(2), of b k None "snd (readNow w i)"] Inr
    show ?thesis
      by (auto simp: handleCaptchaSolve_def readNow_def Let_def split: prod.splits sum.splits)
  qed
qed

section \<open>Failures across providers, in both service workers\<close>








lemma showInt_3: "showInt 3 = ''3''"
  by (simp add: showInt_def showNat.simps digitChar_def)



















end
